theory Spec2Isabelle
  imports Main
begin

chapter \<open>The embedding\<close>

section \<open>Facade version table: \<open>bestVersion\<close>\<close>

text \<open>
  The Go function scans the candidate versions once, keeping the best one seen so far:
  \<^verbatim>\<open>
  func bestVersion(desiredVersion int, versions []int) int {
      best := 0
      for _, version := range versions {
          if version <= desiredVersion && version > best {
              best = version
          }
      }
      return best
  }
  \<close>
  Go's \<open>int\<close> is only compared here, never added to, so it is modelled as \<open>int\<close>.
  The loop over the slice is the recursion of \<open>bestVersionLoop\<close>, whose second
  argument is the local variable \<open>best\<close>.
\<close>

fun bestVersionLoop :: "int \<Rightarrow> int \<Rightarrow> int list \<Rightarrow> int" where
  "bestVersionLoop desiredVersion best [] = best"
| "bestVersionLoop desiredVersion best (version # versions) =
     (if version \<le> desiredVersion \<and> version > best
      then bestVersionLoop desiredVersion version versions
      else bestVersionLoop desiredVersion best versions)"

definition bestVersion :: "int \<Rightarrow> int list \<Rightarrow> int" where
  "bestVersion desiredVersion versions = bestVersionLoop desiredVersion 0 versions"

section \<open>The raft lease facade: \<open>Facade.ApplyLease\<close>\<close>

text \<open>
  The parameter and result structs of the bulk call. A \<open>LeaseOperation\<close> carries the
  command as a string; an \<open>ErrorResult\<close> holds a pointer to a \<open>params.Error\<close>, nil in
  the zero value that \<open>make\<close> fills the result slice with.
\<close>

record LeaseOperation =
  Command :: string

record LeaseOperations =
  Operations :: "LeaseOperation list"

record 'p ErrorResult =
  Error :: "'p option"

record 'p ErrorResults =
  Results :: "'p ErrorResult list"

text \<open>
  The facade's collaborator \<open>facade.RaftContext\<close> has one method,
  \<open>ApplyLease([]byte) error\<close>. It is an interface whose implementation lives outside
  the facade, so it is a parameter here: a step function on a state \<open>'s\<close> of its own,
  returning the error (\<open>None\<close> for nil) and the next state.
\<close>

type_synonym ('s, 'e) RaftContext = "'s \<Rightarrow> string \<Rightarrow> 'e option \<times> 's"

text \<open>
  The two functions of package \<open>apiservererrors\<close> that the facade calls are parameters
  as well: the test for a not-leader error and the conversion of a Go error into the
  \<open>params.Error\<close> sent over the wire.
\<close>

record ('e, 'p) apiservererrors =
  IsNotLeaderError :: "'e \<Rightarrow> bool"
  ServerError :: "'e \<Rightarrow> 'p"

text \<open>
  The inner loop \<^verbatim>\<open>for i := k; i < len(args.Operations); i++ { results[i] = errResult }\<close>.
\<close>

definition fillRemaining :: "nat \<Rightarrow> nat \<Rightarrow> 'a \<Rightarrow> 'a list \<Rightarrow> 'a list" where
  "fillRemaining k n errResult results = fold (\<lambda>i rs. rs[i := errResult]) [k..<n] results"

text \<open>
  The outer loop \<^verbatim>\<open>for k, op := range args.Operations\<close>, with the index \<open>k\<close>, the
  operations still to visit, the result slice and the raft state as arguments; \<open>n\<close> is
  \<open>len(args.Operations)\<close>. A nil error continues; a not-leader error fills the results
  from \<open>k\<close> on and breaks; any other error is stored at \<open>k\<close> and the loop goes on.
\<close>

fun applyLeaseLoop ::
  "('e, 'p) apiservererrors \<Rightarrow> ('s, 'e) RaftContext \<Rightarrow> nat \<Rightarrow> nat \<Rightarrow> LeaseOperation list
     \<Rightarrow> 'p ErrorResult list \<Rightarrow> 's \<Rightarrow> 'p ErrorResult list \<times> 's" where
  "applyLeaseLoop errs raft n k [] results s = (results, s)"
| "applyLeaseLoop errs raft n k (op # ops) results s =
     (case raft s (Command op) of
        (None, s') \<Rightarrow> applyLeaseLoop errs raft n (Suc k) ops results s'
      | (Some err, s') \<Rightarrow>
          if IsNotLeaderError errs err
          then (fillRemaining k n \<lparr>Error = Some (ServerError errs err)\<rparr> results, s')
          else applyLeaseLoop errs raft n (Suc k) ops
                 (results[k := \<lparr>Error = Some (ServerError errs err)\<rparr>]) s')"

text \<open>
  \<open>ApplyLease\<close> returns the results and its own error, which is always nil, together
  with the raft state it leaves behind.
\<close>

definition ApplyLease ::
  "('e, 'p) apiservererrors \<Rightarrow> ('s, 'e) RaftContext \<Rightarrow> LeaseOperations \<Rightarrow> 's
     \<Rightarrow> ('p ErrorResults \<times> 'e option) \<times> 's" where
  "ApplyLease errs raft args s =
     (let n = length (Operations args);
          results = replicate n \<lparr>Error = None\<rparr>;
          (results', s') = applyLeaseLoop errs raft n 0 (Operations args) results s
      in ((\<lparr>Results = results'\<rparr>, None), s'))"

text \<open>
  What the raft context returns and where it ends up when the commands of a list of
  operations are applied one after the other (the errors only describe a run; they are
  used to state which operations succeeded).
\<close>

fun raftErrors :: "('s, 'e) RaftContext \<Rightarrow> 's \<Rightarrow> LeaseOperation list \<Rightarrow> 'e option list" where
  "raftErrors raft s [] = []"
| "raftErrors raft s (op # ops) =
     (case raft s (Command op) of (e, s') \<Rightarrow> e # raftErrors raft s' ops)"

fun raftState :: "('s, 'e) RaftContext \<Rightarrow> 's \<Rightarrow> LeaseOperation list \<Rightarrow> 's" where
  "raftState raft s [] = s"
| "raftState raft s (op # ops) = (case raft s (Command op) of (e, s') \<Rightarrow> raftState raft s' ops)"

definition notLeaderFree :: "('e, 'p) apiservererrors \<Rightarrow> 'e option list \<Rightarrow> bool" where
  "notLeaderFree errs es = list_all (\<lambda>e. case e of None \<Rightarrow> True | Some x \<Rightarrow> \<not> IsNotLeaderError errs x) es"

definition errorResultOf :: "('e, 'p) apiservererrors \<Rightarrow> 'e option \<Rightarrow> 'p ErrorResult" where
  "errorResultOf errs e = \<lparr>Error = map_option (ServerError errs) e\<rparr>"

text \<open>
  A scripted raft context in the manner of the generated \<open>MockRaftContext\<close>: it answers
  each command from a table and records the commands it was given, in order.
\<close>

definition scriptedRaft :: "(string \<Rightarrow> 'e option) \<Rightarrow> (string list, 'e) RaftContext" where
  "scriptedRaft script log cmd = (script cmd, log @ [cmd])"

definition stringErrors :: "(string, string) apiservererrors" where
  "stringErrors = \<lparr>IsNotLeaderError = (\<lambda>e. e = ''not leader''), ServerError = (\<lambda>e. e)\<rparr>"

section \<open>The charm-refresh chain: \<open>factory.Run\<close>\<close>

text \<open>
  The tests of package \<open>refresher\<close> build a \<open>factory\<close> from a list of refreshers and
  call \<open>Run\<close>; they show the interface of a refresher (\<open>Allowed(cfg) (bool, error)\<close>
  and \<open>Refresh() (*CharmID, error)\<close>), the field \<open>CharmRef\<close> of the configuration,
  the sentinel \<open>ErrExhausted\<close> and the message of the final error.
\<close>

record RefresherConfig =
  CharmRef :: string

datatype refresh_error =
    ErrExhausted
  | RefreshFailed string
  | UnableToRefresh string

record 'id Refresher =
  Allowed :: "RefresherConfig \<Rightarrow> refresh_error + bool"
  Refresh :: "refresh_error + 'id"

text \<open>
  The calls a run makes on its candidates, each named by the candidate's position in
  the registration order (from 0).
\<close>

datatype refresher_call = AllowedCall nat | RefreshCall nat

text \<open>
  Modelled from the spec: the body of \<open>factory.Run\<close> (file \<open>refresher.go\<close>), of which
  only the tests are at hand. The candidates are consulted in registration order. Each
  is first asked whether it is \<open>Allowed\<close> for the configuration; one that is not is
  passed over. An allowed candidate is asked to \<open>Refresh\<close>: the distinguished
  exhausted outcome moves on to the next candidate, any other error is terminal and
  aborts the chain, and the first other result wins. When every candidate has been
  passed over or is exhausted the chain fails with \<open>unable to refresh <ref>\<close>. The
  second component of the result lists the calls made, in order; \<open>i\<close> is the position
  of the candidate at the head of the list.
\<close>

fun runFrom ::
  "RefresherConfig \<Rightarrow> nat \<Rightarrow> 'id Refresher list \<Rightarrow> (refresh_error + 'id) \<times> refresher_call list" where
  "runFrom cfg i [] = (Inl (UnableToRefresh (CharmRef cfg)), [])"
| "runFrom cfg i (r # rs) =
     (case Allowed r cfg of
        Inl err \<Rightarrow> (Inl err, [AllowedCall i])
      | Inr False \<Rightarrow>
          (case runFrom cfg (Suc i) rs of (res, calls) \<Rightarrow> (res, AllowedCall i # calls))
      | Inr True \<Rightarrow>
          (case Refresh r of
             Inl ErrExhausted \<Rightarrow>
               (case runFrom cfg (Suc i) rs of
                  (res, calls) \<Rightarrow> (res, AllowedCall i # RefreshCall i # calls))
           | Inl err \<Rightarrow> (Inl err, [AllowedCall i, RefreshCall i])
           | Inr charmID \<Rightarrow> (Inr charmID, [AllowedCall i, RefreshCall i])))"

definition Run ::
  "'id Refresher list \<Rightarrow> RefresherConfig \<Rightarrow> (refresh_error + 'id) \<times> refresher_call list" where
  "Run refreshers cfg = runFrom cfg 0 refreshers"

section \<open>Migration export: status history\<close>

text \<open>
  An exported status entry, as the test helper \<open>checkStatusHistory\<close> reads it through
  \<open>Value()\<close>, \<open>Message()\<close>, \<open>Data()\<close> and \<open>Updated()\<close>. The time is a count of clock
  ticks; the data map is kept abstract.
\<close>

record 'd StatusEntry =
  Value :: string
  Message :: string
  Data :: 'd
  Updated :: int

text \<open>
  The cap on exported history entries; the test \<open>TestTooManyStatusHistories\<close> primes 21
  entries and expects 20.
\<close>

definition maxStatusHistoryEntries :: nat where
  "maxStatusHistoryEntries = 20"

text \<open>
  Modelled from the spec: the status history trimmer of the exporter (the exporter is
  not among the sources, only its tests are). Given the full status log of an entity,
  oldest entry first, and a cap, it returns the most recent \<open>cap\<close> entries, most
  recent first; with fewer than \<open>cap\<close> entries it returns all of them in that order.
\<close>

definition mostRecent :: "nat \<Rightarrow> 'a list \<Rightarrow> 'a list" where
  "mostRecent cap log = drop (length log - cap) log"

definition trimStatusHistory :: "nat \<Rightarrow> 'a list \<Rightarrow> 'a list" where
  "trimStatusHistory cap log = rev (mostRecent cap log)"

text \<open>A log is in time order, oldest first, when no entry is older than one before it.\<close>

definition timeOrdered :: "'d StatusEntry list \<Rightarrow> bool" where
  "timeOrdered log = sorted_wrt (\<lambda>a b. Updated a \<le> Updated b) log"

definition reverseChronological :: "'d StatusEntry list \<Rightarrow> bool" where
  "reverseChronological history = sorted_wrt (\<lambda>a b. Updated a \<ge> Updated b) history"

text \<open>A log of \<open>n\<close> entries written at ticks \<open>1, \<dots>, n\<close>, as priming a history does.\<close>

definition primedLog :: "string \<Rightarrow> nat \<Rightarrow> nat StatusEntry list" where
  "primedLog statusVal n =
     map (\<lambda>i. \<lparr>Value = statusVal, Message = [], Data = n - i, Updated = int (Suc i)\<rparr>) [0..<n]"

section \<open>Migration export: configuration, backing store and snapshot\<close>

text \<open>
  The export configuration, with the field names the tests pass to \<open>ExportPartial\<close>:
  one skip toggle per optional category (a category is disabled when its toggle is
  set) and the flag \<open>IgnoreIncompleteModel\<close> that tolerates missing data.
\<close>

record ExportConfig =
  SkipActions :: bool
  SkipAnnotations :: bool
  SkipCloudImageMetadata :: bool
  SkipCredentials :: bool
  SkipIPAddresses :: bool
  SkipSettings :: bool
  SkipSSHHostKeys :: bool
  SkipStatusHistory :: bool
  SkipLinkLayerDevices :: bool
  SkipUnitAgentBinaries :: bool
  SkipMachineAgentBinaries :: bool
  SkipRelationData :: bool
  SkipInstanceData :: bool
  SkipApplicationOffers :: bool
  SkipOfferConnections :: bool
  IgnoreIncompleteModel :: bool

text \<open>
  The errors that the tolerate-incomplete flag downgrades: a machine without instance
  data, a machine or unit without an agent-tools record, and a unit of a related
  application without relation scope.
\<close>

datatype export_error =
    MissingInstanceData string
  | MissingAgentTools string
  | MissingRelationScope string string

type_synonym settings = "(string \<times> string) list"

text \<open>
  The documents of the backing store, reduced to what the export reads for the
  categories of the configuration. Instance data and agent tools are omittable
  (\<open>None\<close> when the store has no record). A status log is in time order, oldest first.
\<close>

record instanceData =
  InstanceId :: string
  InstanceStatus :: string

record agentTools =
  ToolsVersion :: string
  ToolsSHA256 :: string

record machineDoc =
  machineId :: string
  machineInstanceData :: "instanceData option"
  machineTools :: "agentTools option"
  machineStatusLog :: "settings StatusEntry list"

record unitDoc =
  unitName :: string
  unitTools :: "agentTools option"
  unitWorkloadStatusLog :: "settings StatusEntry list"
  unitAgentStatusLog :: "settings StatusEntry list"

record applicationDoc =
  applicationName :: string
  applicationCharmConfig :: settings
  applicationUnits :: "unitDoc list"
  applicationOffers :: "string list"
  applicationStatusLog :: "settings StatusEntry list"

record endpointDoc =
  endpointApplicationName :: string
  endpointName :: string

record relationDoc =
  relationId :: int
  relationKey :: string
  relationEndpoints :: "endpointDoc list"

text \<open>
  \<open>relationScopes\<close> holds, for a relation id and a unit name, the settings of a unit
  that has entered the scope of the relation; a unit that has not entered scope has no
  entry. The remaining collections are lists of opaque documents.
\<close>

record ModelStore =
  machines :: "machineDoc list"
  applications :: "applicationDoc list"
  relations :: "relationDoc list"
  relationScopes :: "int \<times> string \<Rightarrow> settings option"
  relationApplicationSettings :: "int \<times> string \<Rightarrow> settings"
  actions :: "string list"
  operations :: "string list"
  annotations :: "(string \<times> settings) list"
  cloudImageMetadata :: "string list"
  cloudCredential :: "string option"
  ipAddresses :: "string list"
  sshHostKeys :: "(string \<times> string list) list"
  linkLayerDevices :: "string list"
  offerConnections :: "string list"

text \<open>The snapshot, with one field per accessor of the exported model the tests read.\<close>

record ExportedMachine =
  MachineId :: string
  MachineInstance :: "instanceData option"
  MachineTools :: "agentTools option"
  MachineStatusHistory :: "settings StatusEntry list"

record ExportedUnit =
  UnitName :: string
  UnitTools :: "agentTools option"
  WorkloadStatusHistory :: "settings StatusEntry list"
  AgentStatusHistory :: "settings StatusEntry list"

record ExportedApplication =
  ApplicationName :: string
  CharmConfig :: settings
  Units :: "ExportedUnit list"
  Offers :: "string list"
  ApplicationStatusHistory :: "settings StatusEntry list"

record ExportedEndpoint =
  EndpointApplicationName :: string
  EndpointName :: string
  UnitSettings :: "(string \<times> settings) list"
  ApplicationSettings :: settings

record ExportedRelation =
  RelationId :: int
  RelationKey :: string
  Endpoints :: "ExportedEndpoint list"

record ExportedModel =
  Machines :: "ExportedMachine list"
  Applications :: "ExportedApplication list"
  Relations :: "ExportedRelation list"
  Actions :: "string list"
  ModelOperations :: "string list"
  Annotations :: "(string \<times> settings) list"
  CloudImageMetadata :: "string list"
  CloudCredential :: "string option"
  IPAddresses :: "string list"
  SSHHostKeys :: "(string \<times> string list) list"
  LinkLayerDevices :: "string list"
  OfferConnections :: "string list"

text \<open>The accessors \<open>UnitCount()\<close> and \<open>Settings(unitName)\<close> of an exported endpoint.\<close>

definition UnitCount :: "ExportedEndpoint \<Rightarrow> nat" where
  "UnitCount ep = length (UnitSettings ep)"

definition Settings :: "ExportedEndpoint \<Rightarrow> string \<Rightarrow> settings option" where
  "Settings ep name = map_of (UnitSettings ep) name"

section \<open>Migration export: the readers and the assembler\<close>

text \<open>
  Modelled from the spec: the exporter behind \<open>State.Export\<close> and
  \<open>State.ExportPartial\<close>, of which only the tests are among the sources. Every reader
  consults its toggle first and returns nothing when the category is disabled. Of the
  failures of an export the model has the three that the tolerate-incomplete flag
  downgrades to silent omissions; nested containers, storage, networking references
  and the validation pass are left out.
\<close>

fun mapResult :: "('a \<Rightarrow> 'e + 'b) \<Rightarrow> 'a list \<Rightarrow> 'e + 'b list" where
  "mapResult f [] = Inr []"
| "mapResult f (x # xs) =
     (case f x of
        Inl e \<Rightarrow> Inl e
      | Inr y \<Rightarrow> (case mapResult f xs of Inl e \<Rightarrow> Inl e | Inr ys \<Rightarrow> Inr (y # ys)))"

text \<open>
  Modelled from the spec: reading an omittable record. A disabled category yields
  nothing; a record that is present is exported; a missing record is fatal unless the
  tolerate-incomplete flag is set, in which case it is silently omitted.
\<close>

definition readOmittable ::
  "bool \<Rightarrow> bool \<Rightarrow> export_error \<Rightarrow> 'a option \<Rightarrow> export_error + 'a option" where
  "readOmittable skip tolerate err doc =
     (if skip then Inr None
      else case doc of
             Some r \<Rightarrow> Inr (Some r)
           | None \<Rightarrow> if tolerate then Inr None else Inl err)"

text \<open>
  Modelled from the spec: the exported status history of an entity is its trimmed log,
  unless status history is disabled.
\<close>

definition exportStatusHistory :: "ExportConfig \<Rightarrow> 'a list \<Rightarrow> 'a list" where
  "exportStatusHistory cfg log =
     (if SkipStatusHistory cfg then [] else trimStatusHistory maxStatusHistoryEntries log)"

text \<open>Modelled from the spec: the machine reader.\<close>

definition exportMachine :: "ExportConfig \<Rightarrow> machineDoc \<Rightarrow> export_error + ExportedMachine" where
  "exportMachine cfg m =
     (case readOmittable (SkipInstanceData cfg) (IgnoreIncompleteModel cfg)
             (MissingInstanceData (machineId m)) (machineInstanceData m) of
        Inl e \<Rightarrow> Inl e
      | Inr inst \<Rightarrow>
          (case readOmittable (SkipMachineAgentBinaries cfg) (IgnoreIncompleteModel cfg)
                  (MissingAgentTools (machineId m)) (machineTools m) of
             Inl e \<Rightarrow> Inl e
           | Inr tools \<Rightarrow>
               Inr \<lparr>MachineId = machineId m, MachineInstance = inst, MachineTools = tools,
                    MachineStatusHistory = exportStatusHistory cfg (machineStatusLog m)\<rparr>))"

text \<open>Modelled from the spec: the unit reader.\<close>

definition exportUnit :: "ExportConfig \<Rightarrow> unitDoc \<Rightarrow> export_error + ExportedUnit" where
  "exportUnit cfg u =
     (case readOmittable (SkipUnitAgentBinaries cfg) (IgnoreIncompleteModel cfg)
             (MissingAgentTools (unitName u)) (unitTools u) of
        Inl e \<Rightarrow> Inl e
      | Inr tools \<Rightarrow>
          Inr \<lparr>UnitName = unitName u, UnitTools = tools,
               WorkloadStatusHistory = exportStatusHistory cfg (unitWorkloadStatusLog u),
               AgentStatusHistory = exportStatusHistory cfg (unitAgentStatusLog u)\<rparr>)"

text \<open>Modelled from the spec: the application reader, with the units of the application.\<close>

definition exportApplication ::
  "ExportConfig \<Rightarrow> applicationDoc \<Rightarrow> export_error + ExportedApplication" where
  "exportApplication cfg a =
     (case mapResult (exportUnit cfg) (applicationUnits a) of
        Inl e \<Rightarrow> Inl e
      | Inr us \<Rightarrow>
          Inr \<lparr>ApplicationName = applicationName a,
               CharmConfig = (if SkipSettings cfg then [] else applicationCharmConfig a),
               Units = us,
               Offers = (if SkipApplicationOffers cfg then [] else applicationOffers a),
               ApplicationStatusHistory = exportStatusHistory cfg (applicationStatusLog a)\<rparr>)"

text \<open>The names of the units of the application called \<open>app\<close>.\<close>

definition unitNamesOf :: "ModelStore \<Rightarrow> string \<Rightarrow> string list" where
  "unitNamesOf st app =
     concat (map (\<lambda>a. map unitName (applicationUnits a))
               (filter (\<lambda>a. applicationName a = app) (applications st)))"

text \<open>
  Modelled from the spec: the per-unit settings of one endpoint of a relation. Each
  unit of the endpoint's application that has entered scope contributes its settings
  under its name; a unit without relation scope is fatal unless the
  tolerate-incomplete flag is set, in which case it is silently omitted.
\<close>

fun readUnitSettings ::
  "ExportConfig \<Rightarrow> ModelStore \<Rightarrow> relationDoc \<Rightarrow> string list \<Rightarrow> export_error + (string \<times> settings) list" where
  "readUnitSettings cfg st rel [] = Inr []"
| "readUnitSettings cfg st rel (u # us) =
     (case relationScopes st (relationId rel, u) of
        Some s \<Rightarrow>
          (case readUnitSettings cfg st rel us of
             Inl e \<Rightarrow> Inl e
           | Inr rest \<Rightarrow> Inr ((u, s) # rest))
      | None \<Rightarrow>
          if IgnoreIncompleteModel cfg then readUnitSettings cfg st rel us
          else Inl (MissingRelationScope (relationKey rel) u))"

text \<open>Modelled from the spec: the reader of one endpoint of a relation.\<close>

definition exportEndpoint ::
  "ExportConfig \<Rightarrow> ModelStore \<Rightarrow> relationDoc \<Rightarrow> endpointDoc \<Rightarrow> export_error + ExportedEndpoint" where
  "exportEndpoint cfg st rel ep =
     (case (if SkipRelationData cfg then Inr []
            else readUnitSettings cfg st rel (unitNamesOf st (endpointApplicationName ep))) of
        Inl e \<Rightarrow> Inl e
      | Inr us \<Rightarrow>
          Inr \<lparr>EndpointApplicationName = endpointApplicationName ep,
               EndpointName = endpointName ep,
               UnitSettings = us,
               ApplicationSettings =
                 (if SkipSettings cfg then []
                  else relationApplicationSettings st (relationId rel, endpointApplicationName ep))\<rparr>)"

text \<open>Modelled from the spec: the relation reader.\<close>

definition exportRelation ::
  "ExportConfig \<Rightarrow> ModelStore \<Rightarrow> relationDoc \<Rightarrow> export_error + ExportedRelation" where
  "exportRelation cfg st rel =
     (case mapResult (exportEndpoint cfg st rel) (relationEndpoints rel) of
        Inl e \<Rightarrow> Inl e
      | Inr eps \<Rightarrow>
          Inr \<lparr>RelationId = relationId rel, RelationKey = relationKey rel, Endpoints = eps\<rparr>)"

text \<open>
  Modelled from the spec: the snapshot assembler. Machines, applications (with their
  units) and relations are read in this order and the first failure aborts the export;
  the flat categories are copied unless disabled. Disabling actions removes the
  operations as well, as \<open>TestActionsSkipped\<close> expects.
\<close>

definition ExportPartial :: "ModelStore \<Rightarrow> ExportConfig \<Rightarrow> export_error + ExportedModel" where
  "ExportPartial st cfg =
     (case mapResult (exportMachine cfg) (machines st) of
        Inl e \<Rightarrow> Inl e
      | Inr ms \<Rightarrow>
          (case mapResult (exportApplication cfg) (applications st) of
             Inl e \<Rightarrow> Inl e
           | Inr as \<Rightarrow>
               (case mapResult (exportRelation cfg st) (relations st) of
                  Inl e \<Rightarrow> Inl e
                | Inr rs \<Rightarrow>
                    Inr \<lparr>Machines = ms, Applications = as, Relations = rs,
                         Actions = (if SkipActions cfg then [] else actions st),
                         ModelOperations = (if SkipActions cfg then [] else operations st),
                         Annotations = (if SkipAnnotations cfg then [] else annotations st),
                         CloudImageMetadata =
                           (if SkipCloudImageMetadata cfg then [] else cloudImageMetadata st),
                         CloudCredential =
                           (if SkipCredentials cfg then None else cloudCredential st),
                         IPAddresses = (if SkipIPAddresses cfg then [] else ipAddresses st),
                         SSHHostKeys = (if SkipSSHHostKeys cfg then [] else sshHostKeys st),
                         LinkLayerDevices =
                           (if SkipLinkLayerDevices cfg then [] else linkLayerDevices st),
                         OfferConnections =
                           (if SkipOfferConnections cfg then [] else offerConnections st)\<rparr>)))"

text \<open>\<open>Export\<close> is \<open>ExportPartial\<close> with the zero configuration: nothing skipped, nothing tolerated.\<close>

definition exportEverything :: "bool \<Rightarrow> ExportConfig" where
  "exportEverything tolerate =
     \<lparr>SkipActions = False, SkipAnnotations = False, SkipCloudImageMetadata = False,
      SkipCredentials = False, SkipIPAddresses = False, SkipSettings = False,
      SkipSSHHostKeys = False, SkipStatusHistory = False, SkipLinkLayerDevices = False,
      SkipUnitAgentBinaries = False, SkipMachineAgentBinaries = False,
      SkipRelationData = False, SkipInstanceData = False, SkipApplicationOffers = False,
      SkipOfferConnections = False, IgnoreIncompleteModel = tolerate\<rparr>"

definition Export :: "ModelStore \<Rightarrow> export_error + ExportedModel" where
  "Export st = ExportPartial st (exportEverything False)"

section \<open>Migration export: the toggles as a closed set\<close>

datatype toggle =
    ToggleActions
  | ToggleAnnotations
  | ToggleCloudImageMetadata
  | ToggleCredentials
  | ToggleIPAddresses
  | ToggleSettings
  | ToggleSSHHostKeys
  | ToggleStatusHistory
  | ToggleLinkLayerDevices
  | ToggleUnitAgentBinaries
  | ToggleMachineAgentBinaries
  | ToggleRelationData
  | ToggleInstanceData
  | ToggleApplicationOffers
  | ToggleOfferConnections

text \<open>Disabling one category in a configuration and leaving the others as they are.\<close>

fun disable :: "toggle \<Rightarrow> ExportConfig \<Rightarrow> ExportConfig" where
  "disable ToggleActions cfg = cfg\<lparr>SkipActions := True\<rparr>"
| "disable ToggleAnnotations cfg = cfg\<lparr>SkipAnnotations := True\<rparr>"
| "disable ToggleCloudImageMetadata cfg = cfg\<lparr>SkipCloudImageMetadata := True\<rparr>"
| "disable ToggleCredentials cfg = cfg\<lparr>SkipCredentials := True\<rparr>"
| "disable ToggleIPAddresses cfg = cfg\<lparr>SkipIPAddresses := True\<rparr>"
| "disable ToggleSettings cfg = cfg\<lparr>SkipSettings := True\<rparr>"
| "disable ToggleSSHHostKeys cfg = cfg\<lparr>SkipSSHHostKeys := True\<rparr>"
| "disable ToggleStatusHistory cfg = cfg\<lparr>SkipStatusHistory := True\<rparr>"
| "disable ToggleLinkLayerDevices cfg = cfg\<lparr>SkipLinkLayerDevices := True\<rparr>"
| "disable ToggleUnitAgentBinaries cfg = cfg\<lparr>SkipUnitAgentBinaries := True\<rparr>"
| "disable ToggleMachineAgentBinaries cfg = cfg\<lparr>SkipMachineAgentBinaries := True\<rparr>"
| "disable ToggleRelationData cfg = cfg\<lparr>SkipRelationData := True\<rparr>"
| "disable ToggleInstanceData cfg = cfg\<lparr>SkipInstanceData := True\<rparr>"
| "disable ToggleApplicationOffers cfg = cfg\<lparr>SkipApplicationOffers := True\<rparr>"
| "disable ToggleOfferConnections cfg = cfg\<lparr>SkipOfferConnections := True\<rparr>"

text \<open>
  The number of exported entries of a category. Instance data and agent binaries are
  counted per entity that carries them, status history and settings per entry,
  relation data per unit of an endpoint; the category of actions has the actions and
  their operations.
\<close>

definition present :: "'a option \<Rightarrow> nat" where
  "present v = (case v of None \<Rightarrow> 0 | Some x \<Rightarrow> 1)"

definition allUnits :: "ExportedModel \<Rightarrow> ExportedUnit list" where
  "allUnits m = concat (map Units (Applications m))"

definition allEndpoints :: "ExportedModel \<Rightarrow> ExportedEndpoint list" where
  "allEndpoints m = concat (map Endpoints (Relations m))"

fun entries :: "toggle \<Rightarrow> ExportedModel \<Rightarrow> nat" where
  "entries ToggleActions m = length (Actions m) + length (ModelOperations m)"
| "entries ToggleAnnotations m = length (Annotations m)"
| "entries ToggleCloudImageMetadata m = length (CloudImageMetadata m)"
| "entries ToggleCredentials m = present (CloudCredential m)"
| "entries ToggleIPAddresses m = length (IPAddresses m)"
| "entries ToggleSettings m =
     sum_list (map (\<lambda>a. length (CharmConfig a)) (Applications m))
     + sum_list (map (\<lambda>e. length (ApplicationSettings e)) (allEndpoints m))"
| "entries ToggleSSHHostKeys m = length (SSHHostKeys m)"
| "entries ToggleStatusHistory m =
     sum_list (map (\<lambda>x. length (MachineStatusHistory x)) (Machines m))
     + sum_list (map (\<lambda>a. length (ApplicationStatusHistory a)) (Applications m))
     + sum_list (map (\<lambda>u. length (WorkloadStatusHistory u) + length (AgentStatusHistory u)) (allUnits m))"
| "entries ToggleLinkLayerDevices m = length (LinkLayerDevices m)"
| "entries ToggleUnitAgentBinaries m = sum_list (map (\<lambda>u. present (UnitTools u)) (allUnits m))"
| "entries ToggleMachineAgentBinaries m = sum_list (map (\<lambda>x. present (MachineTools x)) (Machines m))"
| "entries ToggleRelationData m = sum_list (map UnitCount (allEndpoints m))"
| "entries ToggleInstanceData m = sum_list (map (\<lambda>x. present (MachineInstance x)) (Machines m))"
| "entries ToggleApplicationOffers m = sum_list (map (\<lambda>a. length (Offers a)) (Applications m))"
| "entries ToggleOfferConnections m = length (OfferConnections m)"

text \<open>
  A snapshot with the entries of one category removed: the lists of the category
  emptied and its omittable fields absent, everything else as it was.
\<close>

fun withoutCategory :: "toggle \<Rightarrow> ExportedModel \<Rightarrow> ExportedModel" where
  "withoutCategory ToggleActions m = m\<lparr>Actions := [], ModelOperations := []\<rparr>"
| "withoutCategory ToggleAnnotations m = m\<lparr>Annotations := []\<rparr>"
| "withoutCategory ToggleCloudImageMetadata m = m\<lparr>CloudImageMetadata := []\<rparr>"
| "withoutCategory ToggleCredentials m = m\<lparr>CloudCredential := None\<rparr>"
| "withoutCategory ToggleIPAddresses m = m\<lparr>IPAddresses := []\<rparr>"
| "withoutCategory ToggleSettings m =
     m\<lparr>Applications := map (\<lambda>a. a\<lparr>CharmConfig := []\<rparr>) (Applications m),
       Relations :=
         map (\<lambda>r. r\<lparr>Endpoints := map (\<lambda>e. e\<lparr>ApplicationSettings := []\<rparr>) (Endpoints r)\<rparr>)
           (Relations m)\<rparr>"
| "withoutCategory ToggleSSHHostKeys m = m\<lparr>SSHHostKeys := []\<rparr>"
| "withoutCategory ToggleStatusHistory m =
     m\<lparr>Machines := map (\<lambda>x. x\<lparr>MachineStatusHistory := []\<rparr>) (Machines m),
       Applications :=
         map (\<lambda>a. a\<lparr>Units := map (\<lambda>u. u\<lparr>WorkloadStatusHistory := [], AgentStatusHistory := []\<rparr>)
                               (Units a),
                      ApplicationStatusHistory := []\<rparr>)
           (Applications m)\<rparr>"
| "withoutCategory ToggleLinkLayerDevices m = m\<lparr>LinkLayerDevices := []\<rparr>"
| "withoutCategory ToggleUnitAgentBinaries m =
     m\<lparr>Applications :=
         map (\<lambda>a. a\<lparr>Units := map (\<lambda>u. u\<lparr>UnitTools := None\<rparr>) (Units a)\<rparr>) (Applications m)\<rparr>"
| "withoutCategory ToggleMachineAgentBinaries m =
     m\<lparr>Machines := map (\<lambda>x. x\<lparr>MachineTools := None\<rparr>) (Machines m)\<rparr>"
| "withoutCategory ToggleRelationData m =
     m\<lparr>Relations :=
         map (\<lambda>r. r\<lparr>Endpoints := map (\<lambda>e. e\<lparr>UnitSettings := []\<rparr>) (Endpoints r)\<rparr>) (Relations m)\<rparr>"
| "withoutCategory ToggleInstanceData m =
     m\<lparr>Machines := map (\<lambda>x. x\<lparr>MachineInstance := None\<rparr>) (Machines m)\<rparr>"
| "withoutCategory ToggleApplicationOffers m =
     m\<lparr>Applications := map (\<lambda>a. a\<lparr>Offers := []\<rparr>) (Applications m)\<rparr>"
| "withoutCategory ToggleOfferConnections m = m\<lparr>OfferConnections := []\<rparr>"

chapter \<open>Properties\<close>

section \<open>\<open>bestVersion\<close>\<close>

lemma bestVersionLoop_ge: "b \<le> bestVersionLoop d b vs"
proof (induction vs arbitrary: b)
  case Nil
  show ?case by simp
next
  case (Cons x xs)
  show ?case using Cons.IH [of x] Cons.IH [of b] by auto
qed

lemma bestVersionLoop_upper:
  "v \<in> set vs \<Longrightarrow> v \<le> d \<Longrightarrow> v \<le> bestVersionLoop d b vs"
proof (induction vs arbitrary: b)
  case Nil
  then show ?case by simp
next
  case (Cons x xs)
  show ?case
  proof (cases "v = x")
    case True
    then show ?thesis
      using Cons.prems bestVersionLoop_ge [of x d xs] bestVersionLoop_ge [of b d xs] by auto
  next
    case False
    then have "v \<in> set xs" using Cons.prems by simp
    then show ?thesis using Cons.IH Cons.prems by simp
  qed
qed

lemma bestVersionLoop_cases:
  "bestVersionLoop d b vs = b
   \<or> (bestVersionLoop d b vs \<in> set vs \<and> bestVersionLoop d b vs \<le> d \<and> b < bestVersionLoop d b vs)"
proof (induction vs arbitrary: b)
  case Nil
  show ?case by simp
next
  case (Cons x xs)
  show ?case using Cons.IH [of x] Cons.IH [of b] by auto
qed

text \<open>
  Claim C10. For every desired version \<open>d\<close> and every list \<open>vs\<close> of candidate versions,
  \<open>bestVersion d vs\<close> is the largest element of \<open>vs\<close> that is at most \<open>d\<close> and
  greater than 0, and it is 0 when \<open>vs\<close> has no such element (so also when \<open>vs\<close> is
  empty or every element exceeds \<open>d\<close>).
\<close>

theorem bestVersion_largest_usable:
  "bestVersion d vs =
     (if \<exists>v \<in> set vs. v \<le> d \<and> 0 < v then Max {v \<in> set vs. v \<le> d \<and> 0 < v} else 0)"
proof (cases "\<exists>v \<in> set vs. v \<le> d \<and> 0 < v")
  case True
  then obtain w where w: "w \<in> set vs" "w \<le> d" "0 < w" by blast
  have pos: "0 < bestVersionLoop d 0 vs"
    using bestVersionLoop_upper [OF w(1) w(2), of 0] w(3) by simp
  then have mem: "bestVersionLoop d 0 vs \<in> {v \<in> set vs. v \<le> d \<and> 0 < v}"
    using bestVersionLoop_cases [of d 0 vs] by auto
  have "Max {v \<in> set vs. v \<le> d \<and> 0 < v} = bestVersionLoop d 0 vs"
  proof (rule Max_eqI)
    show "finite {v \<in> set vs. v \<le> d \<and> 0 < v}" by simp
    show "y \<le> bestVersionLoop d 0 vs" if "y \<in> {v \<in> set vs. v \<le> d \<and> 0 < v}" for y
      using that bestVersionLoop_upper [of y vs d 0] by simp
    show "bestVersionLoop d 0 vs \<in> {v \<in> set vs. v \<le> d \<and> 0 < v}" by (rule mem)
  qed
  then show ?thesis using True by (simp add: bestVersion_def)
next
  case False
  then have "bestVersionLoop d 0 vs = 0"
    using bestVersionLoop_cases [of d 0 vs] by auto
  then show ?thesis using False by (auto simp add: bestVersion_def)
qed

theorem bestVersion_largest_usable_witness:
  "(\<exists>v \<in> set [1, 5, 3, 2 :: int]. v \<le> 4 \<and> 0 < v)
   \<and> bestVersion 4 [1, 5, 3, 2] = Max {v \<in> set [1, 5, 3, 2]. v \<le> 4 \<and> 0 < v}
   \<and> bestVersion 4 [1, 5, 3, 2] = 3
   \<and> \<not> (\<exists>v \<in> set [5, 6 :: int]. v \<le> 4 \<and> 0 < v)
   \<and> bestVersion 4 [5, 6] = 0
   \<and> bestVersion 4 [] = 0"
  using bestVersion_largest_usable [of 4 "[1, 5, 3, 2]"]
        bestVersion_largest_usable [of 4 "[5, 6]"]
        bestVersion_largest_usable [of 4 "[]"]
  by (simp add: bestVersion_def)

section \<open>\<open>Facade.ApplyLease\<close>\<close>

lemma fold_update_range:
  "k \<le> n \<Longrightarrow> n \<le> length rs \<Longrightarrow>
   fold (\<lambda>i rs. rs[i := v]) [k..<n] rs = take k rs @ replicate (n - k) v @ drop n rs"
proof (induction n)
  case 0
  then show ?case by simp
next
  case (Suc n)
  show ?case
  proof (cases "k = Suc n")
    case True
    then show ?thesis by simp
  next
    case False
    then have kn: "k \<le> n" and nl: "n < length rs" using Suc.prems by auto
    have "fold (\<lambda>i rs. rs[i := v]) [k..<Suc n] rs
            = (take k rs @ replicate (n - k) v @ drop n rs)[n := v]"
      using kn nl Suc.IH by simp
    also have "\<dots> = take k rs @ replicate (n - k) v @ (drop n rs)[0 := v]"
      using kn nl by (simp add: list_update_append)
    also have "(drop n rs)[0 := v] = v # drop (Suc n) rs"
      using nl by (simp add: Cons_nth_drop_Suc [symmetric])
    also have "take k rs @ replicate (n - k) v @ v # drop (Suc n) rs
                 = take k rs @ replicate (Suc n - k) v @ drop (Suc n) rs"
      using kn by (simp add: Suc_diff_le replicate_app_Cons_same)
    finally show ?thesis .
  qed
qed

lemma fillRemaining_append:
  "fillRemaining (length done) (length done + m) v (done @ replicate m z) = done @ replicate m v"
  by (simp add: fillRemaining_def fold_update_range)

lemma applyLeaseLoop_frame:
  "applyLeaseLoop errs raft (length done + length ops) (length done) ops
       (done @ replicate (length ops) z) s
   = (done @ fst (applyLeaseLoop errs raft (length ops) 0 ops (replicate (length ops) z) s),
      snd (applyLeaseLoop errs raft (length ops) 0 ops (replicate (length ops) z) s))"
proof (induction ops arbitrary: "done" s)
  case Nil
  show ?case by simp
next
  case (Cons op ops)
  obtain e s' where step: "raft s (Command op) = (e, s')" by (cases "raft s (Command op)")
  have gen: "applyLeaseLoop errs raft (length done + Suc (length ops)) (Suc (length done)) ops
               (done @ r # replicate (length ops) z) s'
             = (done @ r # fst (applyLeaseLoop errs raft (length ops) 0 ops (replicate (length ops) z) s'),
                snd (applyLeaseLoop errs raft (length ops) 0 ops (replicate (length ops) z) s'))"
    for r "done"
    using Cons.IH [of "done @ [r]" s'] by simp
  show ?case
  proof (cases e)
    case None
    show ?thesis
      using step None gen [of "done" z] gen [of "[]" z] by simp
  next
    case (Some err)
    show ?thesis
    proof (cases "IsNotLeaderError errs err")
      case True
      show ?thesis
        using step Some True
          fillRemaining_append [of "done" "Suc (length ops)" "\<lparr>Error = Some (ServerError errs err)\<rparr>" z]
          fillRemaining_append [of "[]" "Suc (length ops)" "\<lparr>Error = Some (ServerError errs err)\<rparr>" z]
        by simp
    next
      case False
      show ?thesis
        using step Some False gen [of "done" "\<lparr>Error = Some (ServerError errs err)\<rparr>"]
          gen [of "[]" "\<lparr>Error = Some (ServerError errs err)\<rparr>"]
        by (simp add: list_update_append)
    qed
  qed
qed

lemma ApplyLease_Nil: "ApplyLease errs raft \<lparr>Operations = []\<rparr> s = ((\<lparr>Results = []\<rparr>, None), s)"
  by (simp add: ApplyLease_def Let_def)

lemma ApplyLease_Cons:
  "ApplyLease errs raft \<lparr>Operations = op # ops\<rparr> s =
     (case raft s (Command op) of
        (None, s') \<Rightarrow>
          (case ApplyLease errs raft \<lparr>Operations = ops\<rparr> s' of
             ((r, e), s'') \<Rightarrow> ((\<lparr>Results = \<lparr>Error = None\<rparr> # Results r\<rparr>, None), s''))
      | (Some err, s') \<Rightarrow>
          if IsNotLeaderError errs err
          then ((\<lparr>Results = replicate (Suc (length ops)) \<lparr>Error = Some (ServerError errs err)\<rparr>\<rparr>, None), s')
          else (case ApplyLease errs raft \<lparr>Operations = ops\<rparr> s' of
                  ((r, e), s'') \<Rightarrow>
                    ((\<lparr>Results = \<lparr>Error = Some (ServerError errs err)\<rparr> # Results r\<rparr>, None), s'')))"
proof -
  obtain e s' where step: "raft s (Command op) = (e, s')" by (cases "raft s (Command op)")
  have gen: "applyLeaseLoop errs raft (Suc (length ops)) (Suc 0) ops
               (r # replicate (length ops) \<lparr>Error = None\<rparr>) s'
             = (r # fst (applyLeaseLoop errs raft (length ops) 0 ops (replicate (length ops) \<lparr>Error = None\<rparr>) s'),
                snd (applyLeaseLoop errs raft (length ops) 0 ops (replicate (length ops) \<lparr>Error = None\<rparr>) s'))"
    for r
    using applyLeaseLoop_frame [of errs raft "[r]" ops "\<lparr>Error = None\<rparr>" s'] by simp
  show ?thesis
  proof (cases e)
    case None
    then show ?thesis using step gen [of "\<lparr>Error = None\<rparr>"]
      by (simp add: ApplyLease_def split_beta Let_def)
  next
    case (Some err)
    show ?thesis
    proof (cases "IsNotLeaderError errs err")
      case True
      then show ?thesis
        using step Some
          fillRemaining_append [of "[]" "Suc (length ops)" "\<lparr>Error = Some (ServerError errs err)\<rparr>" "\<lparr>Error = None\<rparr>"]
        by (simp add: ApplyLease_def Let_def)
    next
      case False
      then show ?thesis
        using step Some gen [of "\<lparr>Error = Some (ServerError errs err)\<rparr>"]
        by (simp add: ApplyLease_def split_beta Let_def)
    qed
  qed
qed

lemma ApplyLease_append:
  "notLeaderFree errs (raftErrors raft s pre) \<Longrightarrow>
   ApplyLease errs raft \<lparr>Operations = pre @ rest\<rparr> s =
     (case ApplyLease errs raft \<lparr>Operations = rest\<rparr> (raftState raft s pre) of
        ((r, e), s') \<Rightarrow>
          ((\<lparr>Results = map (errorResultOf errs) (raftErrors raft s pre) @ Results r\<rparr>, None), s'))"
proof (induction pre arbitrary: s)
  case Nil
  show ?case by (simp add: ApplyLease_def split_beta Let_def)
next
  case (Cons op pre)
  obtain e s' where step: "raft s (Command op) = (e, s')" by (cases "raft s (Command op)")
  have free: "notLeaderFree errs (raftErrors raft s' pre)"
    and e: "case e of None \<Rightarrow> True | Some x \<Rightarrow> \<not> IsNotLeaderError errs x"
    using Cons.prems step by (simp_all add: notLeaderFree_def)
  show ?case
    using step e Cons.IH [OF free]
    by (cases e) (simp_all add: ApplyLease_Cons errorResultOf_def split_beta)
qed


lemma stringErrors_simps:
  "IsNotLeaderError stringErrors e = (e = ''not leader'')"
  "ServerError stringErrors e = e"
  by (simp_all add: stringErrors_def)

text \<open>
  Claim C6. Let operation \<open>k\<close> of a batch be the first whose application returns a
  not-leader error (\<open>pre\<close> are the \<open>k\<close> operations before it, \<open>post\<close> the ones after
  it). Then the result at index \<open>k\<close> and at every later index is that same error, the
  results before \<open>k\<close> are those of the operations applied, the raft context is left in
  the state reached right after operation \<open>k\<close> (nothing of \<open>post\<close> is applied), and
  \<open>ApplyLease\<close> itself returns a nil error.
\<close>

theorem ApplyLease_not_leader_fills_rest:
  assumes "notLeaderFree errs (raftErrors raft s pre)"
    and "raft (raftState raft s pre) (Command op) = (Some err, s')"
    and "IsNotLeaderError errs err"
  shows "ApplyLease errs raft \<lparr>Operations = pre @ op # post\<rparr> s =
           ((\<lparr>Results = map (errorResultOf errs) (raftErrors raft s pre)
                          @ replicate (Suc (length post)) \<lparr>Error = Some (ServerError errs err)\<rparr>\<rparr>,
             None), s')"
  using assms(2,3) by (simp add: ApplyLease_append [OF assms(1)] ApplyLease_Cons)

theorem ApplyLease_not_leader_fills_rest_witness:
  "notLeaderFree stringErrors
     (raftErrors (scriptedRaft (\<lambda>c. if c = ''b'' then Some ''not leader'' else None)) []
        [\<lparr>Command = ''a''\<rparr>])
   \<and> scriptedRaft (\<lambda>c. if c = ''b'' then Some ''not leader'' else None)
        (raftState (scriptedRaft (\<lambda>c. if c = ''b'' then Some ''not leader'' else None)) []
           [\<lparr>Command = ''a''\<rparr>])
        (Command \<lparr>Command = ''b''\<rparr>) = (Some ''not leader'', [''a'', ''b''])
   \<and> IsNotLeaderError stringErrors ''not leader''
   \<and> ApplyLease stringErrors (scriptedRaft (\<lambda>c. if c = ''b'' then Some ''not leader'' else None))
        \<lparr>Operations = [\<lparr>Command = ''a''\<rparr>, \<lparr>Command = ''b''\<rparr>, \<lparr>Command = ''c''\<rparr>]\<rparr> []
      = ((\<lparr>Results = [\<lparr>Error = None\<rparr>, \<lparr>Error = Some ''not leader''\<rparr>,
                       \<lparr>Error = Some ''not leader''\<rparr>]\<rparr>, None), [''a'', ''b''])"
proof -
  let ?raft = "scriptedRaft (\<lambda>c. if c = ''b'' then Some ''not leader'' else None)"
  have h1: "notLeaderFree stringErrors (raftErrors ?raft [] [\<lparr>Command = ''a''\<rparr>])"
    by (simp add: notLeaderFree_def scriptedRaft_def stringErrors_simps)
  have h2: "?raft (raftState ?raft [] [\<lparr>Command = ''a''\<rparr>]) (Command \<lparr>Command = ''b''\<rparr>)
              = (Some ''not leader'', [''a'', ''b''])"
    by (simp add: scriptedRaft_def)
  have h3: "IsNotLeaderError stringErrors ''not leader''"
    by (simp add: stringErrors_simps)
  have re: "raftErrors ?raft [] [\<lparr>Command = ''a''\<rparr>] = [None]"
    by (simp add: scriptedRaft_def)
  have "ApplyLease stringErrors ?raft
          \<lparr>Operations = [\<lparr>Command = ''a''\<rparr>, \<lparr>Command = ''b''\<rparr>, \<lparr>Command = ''c''\<rparr>]\<rparr> []
        = ((\<lparr>Results = [\<lparr>Error = None\<rparr>, \<lparr>Error = Some ''not leader''\<rparr>,
                         \<lparr>Error = Some ''not leader''\<rparr>]\<rparr>, None), [''a'', ''b''])"
    using ApplyLease_not_leader_fills_rest [OF h1 h2 h3, of "[\<lparr>Command = ''c''\<rparr>]", unfolded re]
    by (simp add: errorResultOf_def stringErrors_simps)
  then show ?thesis using h1 h2 h3 by (intro conjI)
qed

text \<open>
  Claim C7, as stated, fails: an error that is not a not-leader error does not stop the
  batch. With three operations of which the second fails with such an error, the third
  is still applied (the raft context has seen all three commands) and its result is left
  unset.
\<close>

theorem ApplyLease_other_error_counterexample:
  "\<not> IsNotLeaderError stringErrors ''boom''
   \<and> ApplyLease stringErrors (scriptedRaft (\<lambda>c. if c = ''b'' then Some ''boom'' else None))
        \<lparr>Operations = [\<lparr>Command = ''a''\<rparr>, \<lparr>Command = ''b''\<rparr>, \<lparr>Command = ''c''\<rparr>]\<rparr> []
      = ((\<lparr>Results = [\<lparr>Error = None\<rparr>, \<lparr>Error = Some ''boom''\<rparr>, \<lparr>Error = None\<rparr>]\<rparr>, None),
         [''a'', ''b'', ''c''])"
  by (simp add: ApplyLease_def fillRemaining_def scriptedRaft_def stringErrors_simps)

text \<open>
  Claim C7, amended. Let operation \<open>k\<close> be the first whose application fails in a way
  that matters: no operation before it returned a not-leader error, and applying it
  returns the error \<open>err\<close>. If \<open>err\<close> is a not-leader error, the batch stops there and
  \<open>err\<close> is the result of \<open>k\<close> and of every later operation. Otherwise \<open>err\<close> is the
  result of \<open>k\<close> alone and the rest of the batch is applied, from the raft state that
  operation \<open>k\<close> left, exactly as a batch of its own would be.
\<close>

theorem ApplyLease_error_at:
  assumes "notLeaderFree errs (raftErrors raft s pre)"
    and "raft (raftState raft s pre) (Command op) = (Some err, s')"
  shows "ApplyLease errs raft \<lparr>Operations = pre @ op # post\<rparr> s =
           (if IsNotLeaderError errs err
            then ((\<lparr>Results = map (errorResultOf errs) (raftErrors raft s pre)
                             @ replicate (Suc (length post)) \<lparr>Error = Some (ServerError errs err)\<rparr>\<rparr>,
                   None), s')
            else (case ApplyLease errs raft \<lparr>Operations = post\<rparr> s' of
                    ((r, e), s'') \<Rightarrow>
                      ((\<lparr>Results = map (errorResultOf errs) (raftErrors raft s pre)
                                     @ \<lparr>Error = Some (ServerError errs err)\<rparr> # Results r\<rparr>,
                        None), s'')))"
  using assms(2) by (simp add: ApplyLease_append [OF assms(1)] ApplyLease_Cons split_beta)

theorem ApplyLease_error_at_witness:
  "notLeaderFree stringErrors
     (raftErrors (scriptedRaft (\<lambda>c. if c = ''b'' then Some ''boom'' else None)) []
        [\<lparr>Command = ''a''\<rparr>])
   \<and> scriptedRaft (\<lambda>c. if c = ''b'' then Some ''boom'' else None)
        (raftState (scriptedRaft (\<lambda>c. if c = ''b'' then Some ''boom'' else None)) []
           [\<lparr>Command = ''a''\<rparr>])
        (Command \<lparr>Command = ''b''\<rparr>) = (Some ''boom'', [''a'', ''b''])
   \<and> ApplyLease stringErrors (scriptedRaft (\<lambda>c. if c = ''b'' then Some ''boom'' else None))
        \<lparr>Operations = [\<lparr>Command = ''a''\<rparr>, \<lparr>Command = ''b''\<rparr>, \<lparr>Command = ''c''\<rparr>]\<rparr> []
      = ((\<lparr>Results = [\<lparr>Error = None\<rparr>, \<lparr>Error = Some ''boom''\<rparr>, \<lparr>Error = None\<rparr>]\<rparr>, None),
         [''a'', ''b'', ''c''])"
proof -
  let ?raft = "scriptedRaft (\<lambda>c. if c = ''b'' then Some ''boom'' else None)"
  have h1: "notLeaderFree stringErrors (raftErrors ?raft [] [\<lparr>Command = ''a''\<rparr>])"
    by (simp add: notLeaderFree_def scriptedRaft_def stringErrors_simps)
  have h2: "?raft (raftState ?raft [] [\<lparr>Command = ''a''\<rparr>]) (Command \<lparr>Command = ''b''\<rparr>)
              = (Some ''boom'', [''a'', ''b''])"
    by (simp add: scriptedRaft_def)
  have tail: "ApplyLease stringErrors ?raft \<lparr>Operations = [\<lparr>Command = ''c''\<rparr>]\<rparr> [''a'', ''b'']
                = ((\<lparr>Results = [\<lparr>Error = None\<rparr>]\<rparr>, None), [''a'', ''b'', ''c''])"
    by (simp add: ApplyLease_def scriptedRaft_def)
  have re: "raftErrors ?raft [] [\<lparr>Command = ''a''\<rparr>] = [None]"
    by (simp add: scriptedRaft_def)
  have "ApplyLease stringErrors ?raft
          \<lparr>Operations = [\<lparr>Command = ''a''\<rparr>, \<lparr>Command = ''b''\<rparr>, \<lparr>Command = ''c''\<rparr>]\<rparr> []
        = ((\<lparr>Results = [\<lparr>Error = None\<rparr>, \<lparr>Error = Some ''boom''\<rparr>, \<lparr>Error = None\<rparr>]\<rparr>, None),
           [''a'', ''b'', ''c''])"
    using ApplyLease_error_at [OF h1 h2, of "[\<lparr>Command = ''c''\<rparr>]", unfolded re tail]
    by (simp add: errorResultOf_def stringErrors_simps)
  then show ?thesis using h1 h2 by (intro conjI)
qed

section \<open>\<open>factory.Run\<close>\<close>

text \<open>
  Claim C8. Given three candidates in registration order, of which the first reports
  not-allowed, the second is allowed but its \<open>Refresh\<close> returns the exhausted outcome,
  and the third is allowed and succeeds with \<open>charmID\<close>, the chain returns \<open>charmID\<close>
  with no error. The calls made are, in this order: \<open>Allowed\<close> on the first candidate;
  \<open>Allowed\<close> then \<open>Refresh\<close> on the second; \<open>Allowed\<close> then \<open>Refresh\<close> on the third.
  So the first two candidates are each consulted exactly once, in registration order.
\<close>

theorem Run_continues_after_exhausted:
  assumes "Allowed r0 cfg = Inr False"
    and "Allowed r1 cfg = Inr True" and "Refresh r1 = Inl ErrExhausted"
    and "Allowed r2 cfg = Inr True" and "Refresh r2 = Inr charmID"
  shows "Run [r0, r1, r2] cfg =
           (Inr charmID,
            [AllowedCall 0, AllowedCall 1, RefreshCall 1, AllowedCall 2, RefreshCall 2])"
  using assms by (simp add: Run_def)

theorem Run_continues_after_exhausted_witness:
  "Allowed \<lparr>Allowed = \<lambda>c. Inr False, Refresh = Inl ErrExhausted\<rparr> \<lparr>CharmRef = ''meshuggah''\<rparr> = Inr False
   \<and> Allowed \<lparr>Allowed = \<lambda>c. Inr True, Refresh = Inl ErrExhausted\<rparr> \<lparr>CharmRef = ''meshuggah''\<rparr> = Inr True
   \<and> Refresh \<lparr>Allowed = \<lambda>c. Inr True, Refresh = (Inl ErrExhausted :: refresh_error + string)\<rparr> = Inl ErrExhausted
   \<and> Allowed \<lparr>Allowed = \<lambda>c. Inr True, Refresh = Inr ''ch:meshuggah-1''\<rparr> \<lparr>CharmRef = ''meshuggah''\<rparr> = Inr True
   \<and> Refresh \<lparr>Allowed = \<lambda>c. Inr True, Refresh = (Inr ''ch:meshuggah-1'' :: refresh_error + string)\<rparr>
        = Inr ''ch:meshuggah-1''
   \<and> Run [\<lparr>Allowed = \<lambda>c. Inr False, Refresh = Inl ErrExhausted\<rparr>,
           \<lparr>Allowed = \<lambda>c. Inr True, Refresh = Inl ErrExhausted\<rparr>,
           \<lparr>Allowed = \<lambda>c. Inr True, Refresh = Inr ''ch:meshuggah-1''\<rparr>]
          \<lparr>CharmRef = ''meshuggah''\<rparr>
      = (Inr ''ch:meshuggah-1'',
         [AllowedCall 0, AllowedCall 1, RefreshCall 1, AllowedCall 2, RefreshCall 2])"
  using Run_continues_after_exhausted
    [of "\<lparr>Allowed = \<lambda>c. Inr False, Refresh = Inl ErrExhausted\<rparr>" "\<lparr>CharmRef = ''meshuggah''\<rparr>"
        "\<lparr>Allowed = \<lambda>c. Inr True, Refresh = Inl ErrExhausted\<rparr>"
        "\<lparr>Allowed = \<lambda>c. Inr True, Refresh = Inr ''ch:meshuggah-1''\<rparr>" "''ch:meshuggah-1''"]
  by simp

end
